theory Spec2Isabelle
  imports Main "HOL-Library.AList"
begin

section \<open>Route 53 configuration backup function\<close>

text \<open>
  A shallow embedding of \<^verbatim>\<open>Lambda/route53_config_backup_function.py\<close>.
  The three AWS clients (Route 53, S3, Config), the clock, the UUID generator and the
  process environment are collected in a record \<open>world\<close>; every call the handler makes
  to a client is appended to a list of calls, and every exception is a value.
  The calls to the logger are left out: they return nothing the function uses.
\<close>

subsection \<open>Values\<close>

text \<open>JSON values, as \<^verbatim>\<open>json.dumps\<close> accepts them. A Python dict keeps its insertion
  order, so an object is an association list.\<close>

datatype json =
    JNull
  | JBool bool
  | JInt int
  | JStr string
  | JList "json list"
  | JDict "(string \<times> json) list"

text \<open>An exception, reduced to the text \<^verbatim>\<open>str(e)\<close> that the handler puts into the
  annotation.\<close>

datatype exn = Exn string

fun str :: "exn \<Rightarrow> string" where
  "str (Exn m) = m"

text \<open>\<^verbatim>\<open>str(KeyError(k))\<close> is the key between single quotes.\<close>

definition KeyError :: "string \<Rightarrow> exn" where
  "KeyError k = Exn ([CHR 0x27] @ k @ [CHR 0x27])"

subsection \<open>String helpers of the Python library\<close>

text \<open>\<^verbatim>\<open>s.split(c)\<close> for a one-character separator: one segment more than there are
  separators, empty segments kept.\<close>

fun split :: "char \<Rightarrow> string \<Rightarrow> string list" where
  "split c [] = [[]]"
| "split c (x # xs) =
     (if x = c then [] # split c xs
      else (case split c xs of
              [] \<Rightarrow> [[x]]
            | s # ss \<Rightarrow> (x # s) # ss))"

text \<open>\<^verbatim>\<open>s.rstrip(c)\<close> for a one-character set: every trailing \<open>c\<close> goes.\<close>

definition rstrip :: "char \<Rightarrow> string \<Rightarrow> string" where
  "rstrip c s = rev (dropWhile (\<lambda>x. x = c) (rev s))"

subsection \<open>Data classes\<close>

record ConfigItem =
  resource_id :: string
  resource_type :: string
  configuration_item_status :: string

definition is_route53_hosted_zone :: "ConfigItem \<Rightarrow> bool" where
  "is_route53_hosted_zone c \<longleftrightarrow> resource_type c = ''AWS::Route53::HostedZone''"

text \<open>\<^verbatim>\<open>self.resource_id.split("/")[-1]\<close>; \<open>split\<close> never returns the empty list,
  so the index \<open>-1\<close> always exists.\<close>

definition hosted_zone_id :: "ConfigItem \<Rightarrow> string" where
  "hosted_zone_id c = last (split (CHR ''/'') (resource_id c))"

definition ConfigItem_trigger_type :: "ConfigItem \<Rightarrow> string" where
  "ConfigItem_trigger_type c =
     (if configuration_item_status c = ''resourcediscovered'' then ''creation'' else ''change'')"

record ResourceRecordSet =
  rrs_name :: string
  rrs_type :: string
  ttl :: "int option"
  resource_records :: "json list"
  alias_target :: "(string \<times> json) list option"

text \<open>A record set as the Route 53 listing returns it: a dict in which each of the five
  keys may be missing.\<close>

record raw_record_set =
  raw_Name :: "string option"
  raw_Type :: "string option"
  raw_TTL :: "int option"
  raw_ResourceRecords :: "json list option"
  raw_AliasTarget :: "(string \<times> json) list option"

definition get_default :: "'a option \<Rightarrow> 'a \<Rightarrow> 'a" where
  "get_default v d = (case v of None \<Rightarrow> d | Some x \<Rightarrow> x)"

definition ResourceRecordSet_from_dict :: "raw_record_set \<Rightarrow> ResourceRecordSet" where
  "ResourceRecordSet_from_dict data =
     \<lparr> rrs_name = get_default (raw_Name data) '''',
       rrs_type = get_default (raw_Type data) '''',
       ttl = raw_TTL data,
       resource_records = get_default (raw_ResourceRecords data) [],
       alias_target = raw_AliasTarget data \<rparr>"

record HostedZoneDetails =
  hzd_id :: string
  hzd_name :: string
  config :: json
  resource_record_sets :: "ResourceRecordSet list"

definition normalized_name :: "HostedZoneDetails \<Rightarrow> string" where
  "normalized_name z = rstrip (CHR ''.'') (hzd_name z)"

record BackupMetadata =
  md_account_id :: string
  md_hosted_zone_id :: string
  md_hosted_zone_name :: string
  md_trigger_type :: string
  md_timestamp :: string
  md_backup_id :: string

definition to_dict :: "BackupMetadata \<Rightarrow> (string \<times> string) list" where
  "to_dict m =
     [(''accountId'', md_account_id m),
      (''hostedZoneId'', md_hosted_zone_id m),
      (''hostedZoneName'', md_hosted_zone_name m),
      (''triggerType'', md_trigger_type m),
      (''timestamp'', md_timestamp m),
      (''backupId'', md_backup_id m)]"

subsection \<open>The event\<close>

text \<open>
  The handler receives the Powertools class \<^verbatim>\<open>AWSConfigRuleEvent\<close>, which is not part
  of the repository. Its invoking event always names a message type, but it carries a
  configuration item only for some message types: reading
  \<^verbatim>\<open>event.invoking_event.configuration_item\<close> yields the item or raises, and it does the
  same each time it is read.
\<close>

record aws_configuration_item =
  ci_resource_id :: string
  ci_resource_type :: string
  ci_accountid :: string
  ci_configuration_item_capture_time :: string

record aws_invoking_event =
  message_type :: string
  configuration_item :: "exn + aws_configuration_item"

record AWSConfigRuleEvent =
  invoking_event :: aws_invoking_event
  result_token :: string

subsection \<open>The world outside the function\<close>

record hosted_zone_response =
  Name :: string
  HostedZone :: json

record put_object_request =
  Bucket :: string
  Key :: string
  Body :: json
  ContentType :: string
  ServerSideEncryption :: string

record evaluation =
  ComplianceResourceType :: string
  ComplianceResourceId :: string
  ComplianceType :: string
  OrderingTimestamp :: string
  Annotation :: string

record put_evaluations_request =
  Evaluations :: "evaluation list"
  ResultToken :: string

text \<open>
  \<open>get_hosted_zone\<close> answers or raises. \<open>list_resource_record_sets\<close> gives the pages of
  the paginator in the order it yields them, a page that cannot be fetched being the
  exception it raises. \<open>utcnow\<close> is the clock already formatted as
  \<^verbatim>\<open>%Y%m%dT%H%M%SZ\<close>, \<open>uuid4\<close> the fresh identifier, \<open>BACKUP_BUCKET_NAME\<close> the
  environment variable. \<open>put_object\<close> and \<open>config_put_evaluations\<close> return the exception
  they raise, if any.
\<close>

record world =
  get_hosted_zone :: "string \<Rightarrow> exn + hosted_zone_response"
  list_resource_record_sets :: "string \<Rightarrow> (exn + raw_record_set list) list"
  utcnow :: string
  uuid4 :: string
  BACKUP_BUCKET_NAME :: "string option"
  put_object :: "put_object_request \<Rightarrow> exn option"
  config_put_evaluations :: "put_evaluations_request \<Rightarrow> exn option"

datatype call =
    GetHostedZone string
  | ListResourceRecordSets string
  | PutObject put_object_request
  | PutEvaluations put_evaluations_request

subsection \<open>Fetching the zone\<close>

text \<open>The inner loop: each record set of a page is converted and appended.\<close>

fun append_page :: "ResourceRecordSet list \<Rightarrow> raw_record_set list \<Rightarrow> ResourceRecordSet list" where
  "append_page record_sets [] = record_sets"
| "append_page record_sets (record_set # page) =
     append_page (record_sets @ [ResourceRecordSet_from_dict record_set]) page"

text \<open>The outer loop over the page iterator; a page that raises ends the fetch.\<close>

fun collect_pages ::
  "ResourceRecordSet list \<Rightarrow> (exn + raw_record_set list) list \<Rightarrow> exn + ResourceRecordSet list" where
  "collect_pages record_sets [] = Inr record_sets"
| "collect_pages record_sets (Inl e # pages) = Inl e"
| "collect_pages record_sets (Inr page # pages) =
     collect_pages (append_page record_sets page) pages"

definition fetch_hosted_zone_details ::
  "world \<Rightarrow> string \<Rightarrow> call list \<times> (exn + HostedZoneDetails)" where
  "fetch_hosted_zone_details w zone_id =
     (case get_hosted_zone w zone_id of
        Inl e \<Rightarrow> ([GetHostedZone zone_id], Inl e)
      | Inr hosted_zone_response \<Rightarrow>
          (case collect_pages [] (list_resource_record_sets w zone_id) of
             Inl e \<Rightarrow> ([GetHostedZone zone_id, ListResourceRecordSets zone_id], Inl e)
           | Inr record_sets \<Rightarrow>
               ([GetHostedZone zone_id, ListResourceRecordSets zone_id],
                Inr \<lparr> hzd_id = zone_id,
                      hzd_name = Name hosted_zone_response,
                      config = HostedZone hosted_zone_response,
                      resource_record_sets = record_sets \<rparr>)))"

subsection \<open>Building the backup document\<close>

text \<open>The body of the loop of \<^verbatim>\<open>create_backup_data\<close>: the dict of one record set.
  The three \<^verbatim>\<open>if\<close> tests are Python truth tests: \<^verbatim>\<open>None\<close>, \<open>0\<close>, the empty list and
  the empty dict are false. \<open>AList.update\<close> is the dict assignment: it replaces the value
  of a key that is there and appends a new key at the end.\<close>

definition rrs_dict :: "ResourceRecordSet \<Rightarrow> (string \<times> json) list" where
  "rrs_dict rrs =
     (let d0 = [(''Name'', JStr (rrs_name rrs)), (''Type'', JStr (rrs_type rrs))];
          d1 = (case ttl rrs of
                  None \<Rightarrow> d0
                | Some t \<Rightarrow> if t \<noteq> 0 then AList.update ''TTL'' (JInt t) d0 else d0);
          d2 = (if resource_records rrs \<noteq> []
                then AList.update ''ResourceRecords'' (JList (resource_records rrs)) d1 else d1);
          d3 = (case alias_target rrs of
                  None \<Rightarrow> d2
                | Some a \<Rightarrow> if a \<noteq> [] then AList.update ''AliasTarget'' (JDict a) d2 else d2)
      in d3)"

fun record_sets_dicts :: "json list \<Rightarrow> ResourceRecordSet list \<Rightarrow> json list" where
  "record_sets_dicts acc [] = acc"
| "record_sets_dicts acc (rrs # rest) = record_sets_dicts (acc @ [JDict (rrs_dict rrs)]) rest"

definition create_backup_data :: "HostedZoneDetails \<Rightarrow> BackupMetadata \<Rightarrow> json" where
  "create_backup_data zone_details metadata =
     JDict [(''metadata'', JDict (map (\<lambda>(k, v). (k, JStr v)) (to_dict metadata))),
            (''hostedZone'', config zone_details),
            (''resourceRecordSets'',
               JList (record_sets_dicts [] (resource_record_sets zone_details)))]"

subsection \<open>Writing and reporting\<close>

text \<open>\<^verbatim>\<open>upload_to_s3\<close>: the body is the document itself (\<^verbatim>\<open>json.dumps\<close> cannot fail on
  a value of type \<open>json\<close>); whatever \<open>put_object\<close> raises is caught and becomes
  \<open>False\<close>.\<close>

definition upload_to_s3 :: "world \<Rightarrow> json \<Rightarrow> string \<Rightarrow> string \<Rightarrow> call list \<times> bool" where
  "upload_to_s3 w data bucket_name s3_key =
     (let request = \<lparr> Bucket = bucket_name, Key = s3_key, Body = data,
                       ContentType = ''application/json'',
                       ServerSideEncryption = ''AES256'' \<rparr>
      in case put_object w request of
           None \<Rightarrow> ([PutObject request], True)
         | Some e \<Rightarrow> ([PutObject request], False))"

text \<open>\<^verbatim>\<open>put_evaluations\<close> reads the configuration item of the event again, to build the
  evaluation, before it calls the Config client.\<close>

definition put_evaluations ::
  "world \<Rightarrow> AWSConfigRuleEvent \<Rightarrow> string \<Rightarrow> string \<Rightarrow> call list \<times> exn option" where
  "put_evaluations w event compliance annotation =
     (case configuration_item (invoking_event event) of
        Inl e \<Rightarrow> ([], Some e)
      | Inr item \<Rightarrow>
          (let request =
                 \<lparr> Evaluations =
                     [\<lparr> ComplianceResourceType = ci_resource_type item,
                        ComplianceResourceId = ci_resource_id item,
                        ComplianceType = compliance,
                        OrderingTimestamp = ci_configuration_item_capture_time item,
                        Annotation = annotation \<rparr>],
                   ResultToken = result_token event \<rparr>
           in ([PutEvaluations request], config_put_evaluations w request)))"

subsection \<open>The handler\<close>

definition trigger_type :: "string \<Rightarrow> string" where
  "trigger_type mt =
     (if mt = ''ConfigurationItemChangeNotification'' then ''change'' else ''creation'')"

definition s3_key :: "string \<Rightarrow> string \<Rightarrow> string \<Rightarrow> string \<Rightarrow> string" where
  "s3_key account_id zone_name trigger timestamp =
     ''route53-backup/'' @ account_id @ ''/'' @ zone_name @ ''/'' @ trigger @ ''-''
       @ timestamp @ ''.json''"

text \<open>The two local variables that outlive the \<^verbatim>\<open>try\<close> block.\<close>

record locals =
  compliance :: string
  annotation :: string

definition initial_locals :: locals where
  "initial_locals = \<lparr> compliance = ''NON_COMPLIANT'', annotation = '''' \<rparr>"

text \<open>
  The body of the \<^verbatim>\<open>try\<close> block: the calls made, the two locals as they stand when
  the block is left, and the exception that left it, if any.
\<close>

definition handler_try :: "world \<Rightarrow> AWSConfigRuleEvent \<Rightarrow> call list \<times> locals \<times> exn option" where
  "handler_try w event =
     (case configuration_item (invoking_event event) of
        Inl e \<Rightarrow> ([], initial_locals, Some e)
      | Inr item \<Rightarrow>
          (let zone = ci_resource_id item;
               account_id = ci_accountid item;
               trigger = trigger_type (message_type (invoking_event event))
           in case fetch_hosted_zone_details w zone of
                (calls1, Inl e) \<Rightarrow> (calls1, initial_locals, Some e)
              | (calls1, Inr zone_details) \<Rightarrow>
                  (let metadata = \<lparr> md_account_id = account_id,
                                    md_hosted_zone_id = zone,
                                    md_hosted_zone_name = normalized_name zone_details,
                                    md_trigger_type = trigger,
                                    md_timestamp = utcnow w,
                                    md_backup_id = uuid4 w \<rparr>;
                       backup_data = create_backup_data zone_details metadata;
                       key = s3_key account_id (normalized_name zone_details) trigger
                               (md_timestamp metadata)
                   in case BACKUP_BUCKET_NAME w of
                        None \<Rightarrow> (calls1, initial_locals, Some (KeyError ''BACKUP_BUCKET_NAME''))
                      | Some bucket_name \<Rightarrow>
                          (case upload_to_s3 w backup_data bucket_name key of
                             (calls2, True) \<Rightarrow>
                               (calls1 @ calls2,
                                \<lparr> compliance = ''COMPLIANT'',
                                  annotation = ''Successfully backed up hosted zone '' @ zone \<rparr>,
                                None)
                           | (calls2, False) \<Rightarrow>
                               (calls1 @ calls2,
                                initial_locals
                                  \<lparr> annotation :=
                                      ''Failed to upload backup for hosted zone '' @ zone \<rparr>,
                                None)))))"

record outcome =
  calls :: "call list"
  escaped :: "exn option"

text \<open>
  The handler: the \<^verbatim>\<open>try\<close> block, the \<^verbatim>\<open>except Exception\<close> clause that rewrites
  the annotation only, and then the report.
\<close>

definition handler :: "world \<Rightarrow> AWSConfigRuleEvent \<Rightarrow> outcome" where
  "handler w event =
     (case handler_try w event of
        (calls1, l, raised) \<Rightarrow>
          (let l' = (case raised of
                       None \<Rightarrow> l
                     | Some e \<Rightarrow> l \<lparr> annotation := ''Error processing hosted zone: '' @ str e \<rparr>)
           in case put_evaluations w event (compliance l') (annotation l') of
                (calls2, raised2) \<Rightarrow> \<lparr> calls = calls1 @ calls2, escaped = raised2 \<rparr>))"

subsection \<open>Reading a run\<close>

text \<open>What a list of calls holds: the reports sent to Config, the objects written to S3,
  the zone identifiers given to Route 53.\<close>

fun reports :: "call list \<Rightarrow> put_evaluations_request list" where
  "reports [] = []"
| "reports (PutEvaluations r # cs) = r # reports cs"
| "reports (c # cs) = reports cs"

fun writes :: "call list \<Rightarrow> put_object_request list" where
  "writes [] = []"
| "writes (PutObject r # cs) = r # writes cs"
| "writes (c # cs) = writes cs"

fun fetched_zones :: "call list \<Rightarrow> string list" where
  "fetched_zones [] = []"
| "fetched_zones (GetHostedZone z # cs) = z # fetched_zones cs"
| "fetched_zones (ListResourceRecordSets z # cs) = z # fetched_zones cs"
| "fetched_zones (c # cs) = fetched_zones cs"

text \<open>Subscripting a JSON object.\<close>

fun json_get :: "json \<Rightarrow> string \<Rightarrow> json option" where
  "json_get (JDict d) k = map_of d k"
| "json_get v k = None"

text \<open>The values that would stand for "nothing" if an empty optional field were written
  out.\<close>

definition placeholder :: "json \<Rightarrow> bool" where
  "placeholder v \<longleftrightarrow> v = JNull \<or> v = JInt 0 \<or> v = JList [] \<or> v = JDict []"

text \<open>Names for what the handler builds on a run that reaches the write: the metadata,
  the \<open>put_object\<close> request, and the report.\<close>

definition metadata_of ::
  "world \<Rightarrow> AWSConfigRuleEvent \<Rightarrow> aws_configuration_item \<Rightarrow> HostedZoneDetails \<Rightarrow> BackupMetadata" where
  "metadata_of w ev item zd =
     \<lparr> md_account_id = ci_accountid item,
       md_hosted_zone_id = ci_resource_id item,
       md_hosted_zone_name = normalized_name zd,
       md_trigger_type = trigger_type (message_type (invoking_event ev)),
       md_timestamp = utcnow w,
       md_backup_id = uuid4 w \<rparr>"

definition request_of ::
  "world \<Rightarrow> AWSConfigRuleEvent \<Rightarrow> aws_configuration_item \<Rightarrow> HostedZoneDetails \<Rightarrow> string
     \<Rightarrow> put_object_request" where
  "request_of w ev item zd bucket =
     \<lparr> Bucket = bucket,
       Key = s3_key (ci_accountid item) (normalized_name zd)
               (trigger_type (message_type (invoking_event ev))) (utcnow w),
       Body = create_backup_data zd (metadata_of w ev item zd),
       ContentType = ''application/json'',
       ServerSideEncryption = ''AES256'' \<rparr>"

definition report_of ::
  "AWSConfigRuleEvent \<Rightarrow> aws_configuration_item \<Rightarrow> string \<Rightarrow> string \<Rightarrow> put_evaluations_request" where
  "report_of ev item verdict note =
     \<lparr> Evaluations =
         [\<lparr> ComplianceResourceType = ci_resource_type item,
            ComplianceResourceId = ci_resource_id item,
            ComplianceType = verdict,
            OrderingTimestamp = ci_configuration_item_capture_time item,
            Annotation = note \<rparr>],
       ResultToken = result_token ev \<rparr>"

subsection \<open>Concrete events and worlds\<close>

definition example_item :: aws_configuration_item where
  "example_item =
     \<lparr> ci_resource_id = ''/hostedzone/Z123ABC'',
       ci_resource_type = ''AWS::Route53::HostedZone'',
       ci_accountid = ''123456789012'',
       ci_configuration_item_capture_time = ''2024-05-01T10:00:00.000Z'' \<rparr>"

definition change_event :: AWSConfigRuleEvent where
  "change_event =
     \<lparr> invoking_event =
         \<lparr> message_type = ''ConfigurationItemChangeNotification'',
           configuration_item = Inr example_item \<rparr>,
       result_token = ''token-1'' \<rparr>"

text \<open>A periodic notification: it has no configuration item.\<close>

definition scheduled_event :: AWSConfigRuleEvent where
  "scheduled_event =
     \<lparr> invoking_event =
         \<lparr> message_type = ''ScheduledNotification'',
           configuration_item = Inl (Exn ''no attribute configuration_item'') \<rparr>,
       result_token = ''token-2'' \<rparr>"

definition raw_a :: "string \<Rightarrow> raw_record_set" where
  "raw_a n =
     \<lparr> raw_Name = Some n, raw_Type = Some ''A'', raw_TTL = Some 300,
       raw_ResourceRecords = Some [JDict [(''Value'', JStr ''192.0.2.1'')]],
       raw_AliasTarget = None \<rparr>"

text \<open>A record set that spells its empty fields out.\<close>

definition raw_empty :: raw_record_set where
  "raw_empty =
     \<lparr> raw_Name = Some ''example.com.'', raw_Type = Some ''NS'', raw_TTL = None,
       raw_ResourceRecords = Some [], raw_AliasTarget = Some [] \<rparr>"

definition zero_ttl_record :: ResourceRecordSet where
  "zero_ttl_record =
     \<lparr> rrs_name = ''www.example.com.'', rrs_type = ''A'', ttl = Some 0,
       resource_records = [JDict [(''Value'', JStr ''192.0.2.1'')]],
       alias_target = None \<rparr>"

text \<open>Four pages of sizes 3, 2, 0 and 5.\<close>

definition example_pages :: "raw_record_set list list" where
  "example_pages =
     [[raw_a ''a'', raw_a ''b'', raw_a ''c''],
      [raw_a ''d'', raw_a ''e''],
      [],
      [raw_a ''f'', raw_a ''g'', raw_a ''h'', raw_a ''i'', raw_a ''j'']]"

definition example_response :: hosted_zone_response where
  "example_response =
     \<lparr> Name = ''example.com.'', HostedZone = JDict [(''Name'', JStr ''example.com.'')] \<rparr>"

definition example_world :: world where
  "example_world =
     \<lparr> get_hosted_zone = (\<lambda>z. Inr example_response),
       list_resource_record_sets = (\<lambda>z. map Inr example_pages),
       utcnow = ''20240501T100000Z'',
       uuid4 = ''00000000-0000-4000-8000-000000000000'',
       BACKUP_BUCKET_NAME = Some ''backups'',
       put_object = (\<lambda>r. None),
       config_put_evaluations = (\<lambda>r. None) \<rparr>"

definition failing_s3_world :: world where
  "failing_s3_world = example_world \<lparr> put_object := (\<lambda>r. Some (Exn ''AccessDenied'')) \<rparr>"

text \<open>The storage write fails and, after it, the report call fails too.\<close>

definition throttled_config_world :: world where
  "throttled_config_world =
     failing_s3_world \<lparr> config_put_evaluations := (\<lambda>r. Some (Exn ''Throttling'')) \<rparr>"

definition example_zone :: HostedZoneDetails where
  "example_zone =
     \<lparr> hzd_id = ''Z123ABC'', hzd_name = ''example.com.'', config = JNull,
       resource_record_sets = [] \<rparr>"

definition double_dot_zone :: HostedZoneDetails where
  "double_dot_zone = example_zone \<lparr> hzd_name := ''example.com..'' \<rparr>"

lemmas fixture_defs = example_item_def change_event_def scheduled_event_def raw_a_def
  raw_empty_def zero_ttl_record_def example_pages_def example_response_def example_world_def
  failing_s3_world_def throttled_config_world_def example_zone_def double_dot_zone_def

lemmas model_defs = handler_def handler_try_def put_evaluations_def upload_to_s3_def
  fetch_hosted_zone_details_def create_backup_data_def to_dict_def initial_locals_def
  trigger_type_def s3_key_def normalized_name_def rstrip_def ResourceRecordSet_from_dict_def
  get_default_def rrs_dict_def hosted_zone_id_def Let_def

section \<open>Properties\<close>

subsection \<open>Strings\<close>

lemma dropWhile_replicate_same:
  "dropWhile (\<lambda>x. x = c) (replicate k c @ xs) = dropWhile (\<lambda>x. x = c) xs"
  by (induction k) simp_all

lemma rstrip_replicate: "rstrip c (s @ replicate k c) = rstrip c s"
  by (simp add: rstrip_def dropWhile_replicate_same)

lemma rstrip_noop: "s = [] \<or> last s \<noteq> c \<Longrightarrow> rstrip c s = s"
  by (cases s rule: rev_cases) (simp_all add: rstrip_def)

lemma rstrip_end: "rstrip c s = [] \<or> last (rstrip c s) \<noteq> c"
proof (cases "dropWhile (\<lambda>x. x = c) (rev s)")
  case Nil
  then show ?thesis by (simp add: rstrip_def)
next
  case (Cons y ys)
  then have "y \<noteq> c"
    using hd_dropWhile [of "\<lambda>x. x = c" "rev s"] by auto
  with Cons show ?thesis by (simp add: rstrip_def)
qed

lemma rstrip_decomp: "\<exists>k. s = rstrip c s @ replicate k c"
proof -
  have "rev s = takeWhile (\<lambda>x. x = c) (rev s) @ dropWhile (\<lambda>x. x = c) (rev s)"
    by simp
  then have "s = rev (dropWhile (\<lambda>x. x = c) (rev s)) @ rev (takeWhile (\<lambda>x. x = c) (rev s))"
    by (metis rev_append rev_rev_ident)
  moreover have "takeWhile (\<lambda>x. x = c) xs = replicate (length (takeWhile (\<lambda>x. x = c) xs)) c"
    for xs
    by (induction xs) simp_all
  ultimately show ?thesis
    unfolding rstrip_def by (metis rev_replicate)
qed

lemma rstrip_idem: "rstrip c (rstrip c s) = rstrip c s"
  using rstrip_end [of c s] by (rule rstrip_noop)

lemma split_not_Nil: "split c s \<noteq> []"
  by (induction s) (simp_all split: list.splits)

lemma split_no_separator: "c \<notin> set s \<Longrightarrow> split c s = [s]"
  by (induction s) auto

text \<open>The last segment is what follows the last separator.\<close>

lemma last_split: "last (split c s) = rev (takeWhile (\<lambda>x. x \<noteq> c) (rev s))"
proof (induction s)
  case Nil
  show ?case by simp
next
  case (Cons x xs)
  show ?case
  proof (cases "c \<in> set xs")
    case False
    then have "takeWhile (\<lambda>x. x \<noteq> c) (rev xs @ ys) = rev xs @ takeWhile (\<lambda>x. x \<noteq> c) ys"
      for ys
      by (intro takeWhile_append2) auto
    with False show ?thesis by (simp add: split_no_separator)
  next
    case True
    then have tw: "takeWhile (\<lambda>x. x \<noteq> c) (rev xs @ ys) = takeWhile (\<lambda>x. x \<noteq> c) (rev xs)"
      for ys
      by (intro takeWhile_append1 [where x = c]) auto
    from True have two: "tl (split c xs) \<noteq> []"
      by (induction xs) (auto simp: split_not_Nil split: list.splits)
    show ?thesis
    proof (cases "x = c")
      case True
      then show ?thesis using Cons.IH tw [of "[c]"] by (simp add: split_not_Nil)
    next
      case False
      obtain s ss where sp: "split c xs = s # ss"
        using split_not_Nil [of c xs] by (cases "split c xs") auto
      with two have "ss \<noteq> []" by simp
      with False sp show ?thesis using Cons.IH tw [of "[x]"] by simp
    qed
  qed
qed

subsection \<open>Lists of calls\<close>

lemma reports_append: "reports (xs @ ys) = reports xs @ reports ys"
  by (induction xs rule: reports.induct) simp_all

lemma writes_append: "writes (xs @ ys) = writes xs @ writes ys"
  by (induction xs rule: writes.induct) simp_all

lemma fetched_zones_append: "fetched_zones (xs @ ys) = fetched_zones xs @ fetched_zones ys"
  by (induction xs rule: fetched_zones.induct) simp_all

lemma fetch_calls:
  "fst (fetch_hosted_zone_details w z) = [GetHostedZone z]
   \<or> fst (fetch_hosted_zone_details w z) = [GetHostedZone z, ListResourceRecordSets z]"
  by (simp add: fetch_hosted_zone_details_def split: sum.splits)

lemma fetch_reports: "reports (fst (fetch_hosted_zone_details w z)) = []"
  using fetch_calls [of w z] by auto

lemma fetch_writes: "writes (fst (fetch_hosted_zone_details w z)) = []"
  using fetch_calls [of w z] by auto

lemma fetch_zones: "set (fetched_zones (fst (fetch_hosted_zone_details w z))) = {z}"
  using fetch_calls [of w z] by auto

subsection \<open>The loops\<close>

lemma append_page_map:
  "append_page acc page = acc @ map ResourceRecordSet_from_dict page"
  by (induction page arbitrary: acc) simp_all

lemma collect_pages_all:
  "collect_pages acc (map Inr pages) = Inr (acc @ map ResourceRecordSet_from_dict (concat pages))"
  by (induction pages arbitrary: acc) (simp_all add: append_page_map)

lemma record_sets_dicts_map:
  "record_sets_dicts acc xs = acc @ map (\<lambda>rrs. JDict (rrs_dict rrs)) xs"
  by (induction xs arbitrary: acc) simp_all

lemma rrs_dict_keys:
  "fst ` set (rrs_dict rrs) =
     {''Name'', ''Type''}
     \<union> (if ttl rrs \<noteq> None \<and> ttl rrs \<noteq> Some 0 then {''TTL''} else {})
     \<union> (if resource_records rrs \<noteq> [] then {''ResourceRecords''} else {})
     \<union> (if alias_target rrs \<noteq> None \<and> alias_target rrs \<noteq> Some [] then {''AliasTarget''} else {})"
  by (auto simp: rrs_dict_def Let_def split: option.splits)

subsection \<open>The storage boundary\<close>

lemma upload_result:
  "snd (upload_to_s3 w d b k) \<longleftrightarrow>
     put_object w \<lparr> Bucket = b, Key = k, Body = d, ContentType = ''application/json'',
                  ServerSideEncryption = ''AES256'' \<rparr> = None"
  by (simp add: upload_to_s3_def Let_def split: option.splits)

lemma upload_request_of:
  "snd (upload_to_s3 w (Body (request_of w ev item zd b)) (Bucket (request_of w ev item zd b))
          (Key (request_of w ev item zd b)))
     \<longleftrightarrow> put_object w (request_of w ev item zd b) = None"
  by (simp add: upload_result request_of_def)

lemma metadata_hosted_zone_id:
  "Option.bind (json_get (Body (request_of w ev item zd b)) ''metadata'')
       (\<lambda>m. json_get m ''hostedZoneId'') = Some (JStr (ci_resource_id item))"
  by (simp add: request_of_def metadata_of_def create_backup_data_def to_dict_def)

lemma metadata_trigger_type:
  "Option.bind (json_get (Body (request_of w ev item zd b)) ''metadata'')
       (\<lambda>m. json_get m ''triggerType'')
     = Some (JStr (trigger_type (message_type (invoking_event ev))))"
  by (simp add: request_of_def metadata_of_def create_backup_data_def to_dict_def)

subsection \<open>The try block, path by path\<close>

lemma try_no_item:
  "configuration_item (invoking_event ev) = Inl e \<Longrightarrow>
     handler_try w ev = ([], initial_locals, Some e)"
  by (simp add: handler_try_def)

lemma try_fetch_fails:
  assumes "configuration_item (invoking_event ev) = Inr item"
      and "snd (fetch_hosted_zone_details w (ci_resource_id item)) = Inl e"
  shows "handler_try w ev =
           (fst (fetch_hosted_zone_details w (ci_resource_id item)), initial_locals, Some e)"
  using assms
  by (cases "fetch_hosted_zone_details w (ci_resource_id item)")
     (simp add: handler_try_def Let_def)

lemma try_no_bucket:
  assumes "configuration_item (invoking_event ev) = Inr item"
      and "snd (fetch_hosted_zone_details w (ci_resource_id item)) = Inr zd"
      and "BACKUP_BUCKET_NAME w = None"
  shows "handler_try w ev =
           (fst (fetch_hosted_zone_details w (ci_resource_id item)), initial_locals,
            Some (KeyError ''BACKUP_BUCKET_NAME''))"
  using assms
  by (cases "fetch_hosted_zone_details w (ci_resource_id item)")
     (simp add: handler_try_def Let_def)

lemma try_upload:
  assumes "configuration_item (invoking_event ev) = Inr item"
      and "snd (fetch_hosted_zone_details w (ci_resource_id item)) = Inr zd"
      and "BACKUP_BUCKET_NAME w = Some bucket"
  shows "handler_try w ev =
           (fst (fetch_hosted_zone_details w (ci_resource_id item))
              @ [PutObject (request_of w ev item zd bucket)],
            (if put_object w (request_of w ev item zd bucket) = None
             then \<lparr> compliance = ''COMPLIANT'',
                    annotation = ''Successfully backed up hosted zone '' @ ci_resource_id item \<rparr>
             else \<lparr> compliance = ''NON_COMPLIANT'',
                    annotation = ''Failed to upload backup for hosted zone ''
                                   @ ci_resource_id item \<rparr>),
            None)"
  using assms
  by (cases "fetch_hosted_zone_details w (ci_resource_id item)")
     (simp add: handler_try_def Let_def upload_to_s3_def request_of_def metadata_of_def
        initial_locals_def split: option.splits)

subsection \<open>The handler, path by path\<close>

lemma put_evaluations_item:
  "configuration_item (invoking_event ev) = Inr item \<Longrightarrow>
     put_evaluations w ev c a =
       ([PutEvaluations (report_of ev item c a)], config_put_evaluations w (report_of ev item c a))"
  by (simp add: put_evaluations_def report_of_def Let_def)

lemma handler_no_item:
  "configuration_item (invoking_event ev) = Inl e \<Longrightarrow>
     handler w ev = \<lparr> calls = [], escaped = Some e \<rparr>"
  by (simp add: handler_def try_no_item put_evaluations_def)

lemma handler_fetch_fails:
  assumes "configuration_item (invoking_event ev) = Inr item"
      and "snd (fetch_hosted_zone_details w (ci_resource_id item)) = Inl e"
  shows "handler w ev =
     \<lparr> calls = fst (fetch_hosted_zone_details w (ci_resource_id item))
                 @ [PutEvaluations (report_of ev item ''NON_COMPLIANT''
                      (''Error processing hosted zone: '' @ str e))],
       escaped = config_put_evaluations w (report_of ev item ''NON_COMPLIANT''
                      (''Error processing hosted zone: '' @ str e)) \<rparr>"
  by (simp add: handler_def try_fetch_fails [OF assms] put_evaluations_item [OF assms(1)]
        initial_locals_def)

lemma handler_no_bucket:
  assumes "configuration_item (invoking_event ev) = Inr item"
      and "snd (fetch_hosted_zone_details w (ci_resource_id item)) = Inr zd"
      and "BACKUP_BUCKET_NAME w = None"
  shows "handler w ev =
     \<lparr> calls = fst (fetch_hosted_zone_details w (ci_resource_id item))
                 @ [PutEvaluations (report_of ev item ''NON_COMPLIANT''
                      (''Error processing hosted zone: ''
                         @ str (KeyError ''BACKUP_BUCKET_NAME'')))],
       escaped = config_put_evaluations w (report_of ev item ''NON_COMPLIANT''
                      (''Error processing hosted zone: ''
                         @ str (KeyError ''BACKUP_BUCKET_NAME''))) \<rparr>"
  by (simp add: handler_def try_no_bucket [OF assms] put_evaluations_item [OF assms(1)]
        initial_locals_def)

lemma handler_upload_ok:
  assumes "configuration_item (invoking_event ev) = Inr item"
      and "snd (fetch_hosted_zone_details w (ci_resource_id item)) = Inr zd"
      and "BACKUP_BUCKET_NAME w = Some bucket"
      and "put_object w (request_of w ev item zd bucket) = None"
  shows "handler w ev =
     \<lparr> calls = fst (fetch_hosted_zone_details w (ci_resource_id item))
                 @ [PutObject (request_of w ev item zd bucket),
                    PutEvaluations (report_of ev item ''COMPLIANT''
                      (''Successfully backed up hosted zone '' @ ci_resource_id item))],
       escaped = config_put_evaluations w (report_of ev item ''COMPLIANT''
                      (''Successfully backed up hosted zone '' @ ci_resource_id item)) \<rparr>"
  by (simp add: handler_def try_upload [OF assms(1-3)] assms(4)
        put_evaluations_item [OF assms(1)])

lemma handler_upload_fails:
  assumes "configuration_item (invoking_event ev) = Inr item"
      and "snd (fetch_hosted_zone_details w (ci_resource_id item)) = Inr zd"
      and "BACKUP_BUCKET_NAME w = Some bucket"
      and "put_object w (request_of w ev item zd bucket) = Some e"
  shows "handler w ev =
     \<lparr> calls = fst (fetch_hosted_zone_details w (ci_resource_id item))
                 @ [PutObject (request_of w ev item zd bucket),
                    PutEvaluations (report_of ev item ''NON_COMPLIANT''
                      (''Failed to upload backup for hosted zone '' @ ci_resource_id item))],
       escaped = config_put_evaluations w (report_of ev item ''NON_COMPLIANT''
                      (''Failed to upload backup for hosted zone '' @ ci_resource_id item)) \<rparr>"
  by (simp add: handler_def try_upload [OF assms(1-3)] assms(4)
        put_evaluations_item [OF assms(1)])

text \<open>The five paths are all there are.\<close>

lemma handler_paths:
  obtains (no_item) e where "configuration_item (invoking_event ev) = Inl e"
  | (fetch_fails) item e where "configuration_item (invoking_event ev) = Inr item"
      "snd (fetch_hosted_zone_details w (ci_resource_id item)) = Inl e"
  | (no_bucket) item zd where "configuration_item (invoking_event ev) = Inr item"
      "snd (fetch_hosted_zone_details w (ci_resource_id item)) = Inr zd"
      "BACKUP_BUCKET_NAME w = None"
  | (upload_ok) item zd bucket where "configuration_item (invoking_event ev) = Inr item"
      "snd (fetch_hosted_zone_details w (ci_resource_id item)) = Inr zd"
      "BACKUP_BUCKET_NAME w = Some bucket"
      "put_object w (request_of w ev item zd bucket) = None"
  | (upload_fails) item zd bucket e where "configuration_item (invoking_event ev) = Inr item"
      "snd (fetch_hosted_zone_details w (ci_resource_id item)) = Inr zd"
      "BACKUP_BUCKET_NAME w = Some bucket"
      "put_object w (request_of w ev item zd bucket) = Some e"
proof (cases "configuration_item (invoking_event ev)")
  case (Inl e)
  then show ?thesis by (rule no_item)
next
  case (Inr item)
  show ?thesis
  proof (cases "snd (fetch_hosted_zone_details w (ci_resource_id item))")
    case (Inl e)
    with Inr show ?thesis by (rule fetch_fails)
  next
    case zd: (Inr zd)
    show ?thesis
    proof (cases "BACKUP_BUCKET_NAME w")
      case None
      with Inr zd show ?thesis by (rule no_bucket)
    next
      case (Some bucket)
      show ?thesis
      proof (cases "put_object w (request_of w ev item zd bucket)")
        case None
        with Inr zd Some show ?thesis by (rule upload_ok)
      next
        case e: (Some e)
        with Inr zd Some show ?thesis by (rule upload_fails)
      qed
    qed
  qed
qed

lemma handler_writes:
  assumes "r \<in> set (writes (calls (handler w ev)))"
  shows "\<exists>item zd bucket. configuration_item (invoking_event ev) = Inr item
           \<and> snd (fetch_hosted_zone_details w (ci_resource_id item)) = Inr zd
           \<and> BACKUP_BUCKET_NAME w = Some bucket
           \<and> r = request_of w ev item zd bucket"
proof (cases rule: handler_paths [where ev = ev and w = w])
  case (no_item e)
  with assms show ?thesis by (simp add: handler_no_item)
next
  case (fetch_fails item e)
  with assms show ?thesis by (simp add: handler_fetch_fails writes_append fetch_writes)
next
  case (no_bucket item zd)
  with assms show ?thesis by (simp add: handler_no_bucket writes_append fetch_writes)
next
  case (upload_ok item zd bucket)
  with assms show ?thesis by (simp add: handler_upload_ok writes_append fetch_writes)
next
  case (upload_fails item zd bucket e)
  with assms show ?thesis by (simp add: handler_upload_fails writes_append fetch_writes)
qed

lemma handler_then_report:
  "\<exists>c a. calls (handler w ev) = fst (handler_try w ev) @ fst (put_evaluations w ev c a)
        \<and> escaped (handler w ev) = snd (put_evaluations w ev c a)"
proof -
  obtain cs l x where t: "handler_try w ev = (cs, l, x)"
    by (cases "handler_try w ev")
  define l' where
    "l' = (case x of None \<Rightarrow> l
           | Some e \<Rightarrow> l\<lparr>annotation := ''Error processing hosted zone: '' @ str e\<rparr>)"
  have "calls (handler w ev)
          = fst (handler_try w ev) @ fst (put_evaluations w ev (compliance l') (annotation l'))"
    and "escaped (handler w ev) = snd (put_evaluations w ev (compliance l') (annotation l'))"
    by (simp_all add: handler_def t l'_def Let_def split: prod.splits)
  then show ?thesis by blast
qed

lemma try_reports: "reports (fst (handler_try w ev)) = []"
proof (cases rule: handler_paths [where ev = ev and w = w])
  case (no_item e)
  then show ?thesis by (simp add: try_no_item)
next
  case (fetch_fails item e)
  then show ?thesis by (simp add: try_fetch_fails fetch_reports)
next
  case (no_bucket item zd)
  then show ?thesis by (simp add: try_no_bucket fetch_reports)
next
  case (upload_ok item zd bucket)
  then show ?thesis by (simp add: try_upload reports_append fetch_reports)
next
  case (upload_fails item zd bucket e)
  then show ?thesis by (simp add: try_upload reports_append fetch_reports)
qed

section \<open>The claims\<close>


subsection \<open>C1: the report\<close>

text \<open>
  Claim C1, as amended. On every path the handler ends with one call of
  \<open>put_evaluations\<close>, made after the \<^verbatim>\<open>try\<close> block, and the block itself sends no
  report. Whether that call reaches the Config client depends on the event alone: when the
  configuration item of the event can be read, exactly one report is sent, whatever the
  zone fetch, the bucket lookup and the storage write did; when it cannot be read,
  \<open>put_evaluations\<close> raises the exception of the event-field extraction again, no report
  is sent and the exception leaves the handler.
\<close>

theorem report_sent_once_iff_item_readable:
  "(\<exists>c a. calls (handler w ev) = fst (handler_try w ev) @ fst (put_evaluations w ev c a)
          \<and> escaped (handler w ev) = snd (put_evaluations w ev c a))
   \<and> reports (fst (handler_try w ev)) = []
   \<and> (case configuration_item (invoking_event ev) of
         Inr item \<Rightarrow> length (reports (calls (handler w ev))) = 1
       | Inl e \<Rightarrow> reports (calls (handler w ev)) = [] \<and> escaped (handler w ev) = Some e)"
proof -
  have "case configuration_item (invoking_event ev) of
          Inr item \<Rightarrow> length (reports (calls (handler w ev))) = 1
        | Inl e \<Rightarrow> reports (calls (handler w ev)) = [] \<and> escaped (handler w ev) = Some e"
  proof (cases rule: handler_paths [where ev = ev and w = w])
    case (no_item e)
    then show ?thesis by (simp add: handler_no_item)
  next
    case (fetch_fails item e)
    then show ?thesis by (simp add: handler_fetch_fails reports_append fetch_reports)
  next
    case (no_bucket item zd)
    then show ?thesis by (simp add: handler_no_bucket reports_append fetch_reports)
  next
    case (upload_ok item zd bucket)
    then show ?thesis by (simp add: handler_upload_ok reports_append fetch_reports)
  next
    case (upload_fails item zd bucket e)
    then show ?thesis by (simp add: handler_upload_fails reports_append fetch_reports)
  qed
  with handler_then_report [of w ev] try_reports [of w ev] show ?thesis by blast
qed

theorem report_sent_once_iff_item_readable_witness:
  "length (reports (calls (handler example_world change_event))) = 1
   \<and> length (reports (calls (handler failing_s3_world change_event))) = 1
   \<and> reports (calls (handler example_world scheduled_event)) = []"
  using report_sent_once_iff_item_readable [of example_world change_event]
    report_sent_once_iff_item_readable [of failing_s3_world change_event]
    report_sent_once_iff_item_readable [of example_world scheduled_event]
  by (simp add: change_event_def scheduled_event_def)

text \<open>
  The claim as stated fails for an event without a configuration item: the extraction
  raises inside the \<^verbatim>\<open>try\<close> block, the exception is caught, and the report raises it
  again before anything is sent.
\<close>

theorem report_not_sent_counterexample:
  "handler_try example_world scheduled_event
     = ([], initial_locals, Some (Exn ''no attribute configuration_item''))
   \<and> length (reports (calls (handler example_world scheduled_event))) \<noteq> 1
   \<and> calls (handler example_world scheduled_event) = []
   \<and> escaped (handler example_world scheduled_event)
       = Some (Exn ''no attribute configuration_item'')"
  by (simp add: fixture_defs model_defs)


subsection \<open>C2: the zone identifier\<close>

text \<open>
  Claim C2, as amended. \<open>hosted_zone_id\<close> of a \<open>ConfigItem\<close> is the part of its resource id
  after the last \<open>/\<close>, so \<^verbatim>\<open>/hostedzone/Z123ABC\<close> gives \<^verbatim>\<open>Z123ABC\<close>. The handler does not
  use it: the identifier it passes to the zone fetch, stores in the metadata of the
  backup and names in the success and failure annotations is the resource id of the event,
  unchanged.
\<close>

theorem handler_uses_raw_resource_id:
  "hosted_zone_id c = rev (takeWhile (\<lambda>x. x \<noteq> CHR ''/'') (rev (resource_id c)))
   \<and> hosted_zone_id (c\<lparr>resource_id := ''/hostedzone/Z123ABC''\<rparr>) = ''Z123ABC''
   \<and> (\<forall>item. configuration_item (invoking_event ev) = Inr item \<longrightarrow>
         set (fetched_zones (calls (handler w ev))) = {ci_resource_id item}
       \<and> (\<forall>r \<in> set (writes (calls (handler w ev))).
             Option.bind (json_get (Body r) ''metadata'') (\<lambda>m. json_get m ''hostedZoneId'')
               = Some (JStr (ci_resource_id item)))
       \<and> (\<forall>r \<in> set (reports (calls (handler w ev))). \<forall>e \<in> set (Evaluations r).
             Annotation e = ''Successfully backed up hosted zone '' @ ci_resource_id item
           \<or> Annotation e = ''Failed to upload backup for hosted zone '' @ ci_resource_id item
           \<or> (\<exists>x. Annotation e = ''Error processing hosted zone: '' @ str x)))"
proof -
  have a: "hosted_zone_id c = rev (takeWhile (\<lambda>x. x \<noteq> CHR ''/'') (rev (resource_id c)))"
    by (simp add: hosted_zone_id_def last_split)
  have b: "hosted_zone_id (c\<lparr>resource_id := ''/hostedzone/Z123ABC''\<rparr>) = ''Z123ABC''"
    by (simp add: hosted_zone_id_def)
  have c: "set (fetched_zones (calls (handler w ev))) = {ci_resource_id item}
       \<and> (\<forall>r \<in> set (writes (calls (handler w ev))).
             Option.bind (json_get (Body r) ''metadata'') (\<lambda>m. json_get m ''hostedZoneId'')
               = Some (JStr (ci_resource_id item)))
       \<and> (\<forall>r \<in> set (reports (calls (handler w ev))). \<forall>e \<in> set (Evaluations r).
             Annotation e = ''Successfully backed up hosted zone '' @ ci_resource_id item
           \<or> Annotation e = ''Failed to upload backup for hosted zone '' @ ci_resource_id item
           \<or> (\<exists>x. Annotation e = ''Error processing hosted zone: '' @ str x))"
    if item: "configuration_item (invoking_event ev) = Inr item" for item
  proof (cases rule: handler_paths [where ev = ev and w = w])
    case (no_item e)
    with item show ?thesis by simp
  next
    case (fetch_fails item' e)
    with item have "item' = item" by simp
    with fetch_fails show ?thesis
      by (simp add: handler_fetch_fails fetched_zones_append writes_append reports_append
            fetch_zones fetch_writes fetch_reports report_of_def) blast
  next
    case (no_bucket item' zd)
    with item have "item' = item" by simp
    with no_bucket show ?thesis
      by (simp add: handler_no_bucket fetched_zones_append writes_append reports_append
            fetch_zones fetch_writes fetch_reports report_of_def) blast
  next
    case (upload_ok item' zd bucket)
    with item have "item' = item" by simp
    with upload_ok show ?thesis
      by (simp add: handler_upload_ok fetched_zones_append writes_append reports_append
            fetch_zones fetch_writes fetch_reports report_of_def metadata_hosted_zone_id)
  next
    case (upload_fails item' zd bucket e)
    with item have "item' = item" by simp
    with upload_fails show ?thesis
      by (simp add: handler_upload_fails fetched_zones_append writes_append reports_append
            fetch_zones fetch_writes fetch_reports report_of_def metadata_hosted_zone_id)
  qed
  from a b c show ?thesis by blast
qed

theorem handler_uses_raw_resource_id_witness:
  "configuration_item (invoking_event change_event) = Inr example_item
   \<and> set (fetched_zones (calls (handler example_world change_event))) = {''/hostedzone/Z123ABC''}
   \<and> hosted_zone_id \<lparr> resource_id = ''/hostedzone/Z123ABC'', resource_type = '''',
                       configuration_item_status = '''' \<rparr> = ''Z123ABC''"
  using handler_uses_raw_resource_id
    [of "\<lparr> resource_id = ''/hostedzone/Z123ABC'', resource_type = '''',
            configuration_item_status = '''' \<rparr>" change_event example_world]
  by (simp add: change_event_def example_item_def)

text \<open>
  The claim as stated fails at its own example: for the resource id
  \<^verbatim>\<open>/hostedzone/Z123ABC\<close> the handler fetches, stores and names the whole resource id,
  not \<^verbatim>\<open>Z123ABC\<close>.
\<close>

theorem raw_resource_id_counterexample:
  "fetched_zones (calls (handler example_world change_event))
     = [''/hostedzone/Z123ABC'', ''/hostedzone/Z123ABC'']
   \<and> ''Z123ABC'' \<notin> set (fetched_zones (calls (handler example_world change_event)))
   \<and> map (\<lambda>r. Option.bind (json_get (Body r) ''metadata'') (\<lambda>m. json_get m ''hostedZoneId''))
         (writes (calls (handler example_world change_event)))
       = [Some (JStr ''/hostedzone/Z123ABC'')]
   \<and> map Annotation (concat (map Evaluations (reports (calls (handler example_world change_event)))))
       = [''Successfully backed up hosted zone /hostedzone/Z123ABC'']"
  by (simp add: fixture_defs model_defs)


subsection \<open>C3: the verdict\<close>

text \<open>
  Claim C3. The two locals start as \<^verbatim>\<open>NON_COMPLIANT\<close> and the empty annotation, and an
  exception that leaves the \<^verbatim>\<open>try\<close> block leaves them so. The verdict is
  \<^verbatim>\<open>COMPLIANT\<close> exactly when \<open>upload_to_s3\<close> returned true for the object written, and then
  the annotation is the success text; otherwise the verdict is \<^verbatim>\<open>NON_COMPLIANT\<close>. The
  verdict of every report the handler sends is \<^verbatim>\<open>COMPLIANT\<close> if the write returned true
  and \<^verbatim>\<open>NON_COMPLIANT\<close> on every other path.
\<close>

theorem verdict_compliant_iff_write_succeeded:
  "compliance initial_locals = ''NON_COMPLIANT'' \<and> annotation initial_locals = ''''
   \<and> (\<forall>cs l x. handler_try w ev = (cs, l, x) \<longrightarrow>
         (x \<noteq> None \<longrightarrow> l = initial_locals)
       \<and> (compliance l = ''COMPLIANT'' \<longleftrightarrow>
            (\<exists>r \<in> set (writes cs). snd (upload_to_s3 w (Body r) (Bucket r) (Key r))))
       \<and> (compliance l = ''COMPLIANT'' \<longrightarrow>
            (\<exists>z. annotation l = ''Successfully backed up hosted zone '' @ z))
       \<and> (compliance l \<noteq> ''COMPLIANT'' \<longrightarrow> compliance l = ''NON_COMPLIANT''))
   \<and> (\<forall>r \<in> set (reports (calls (handler w ev))). \<forall>e \<in> set (Evaluations r).
         ComplianceType e =
           (if \<exists>q \<in> set (writes (calls (handler w ev))).
                 snd (upload_to_s3 w (Body q) (Bucket q) (Key q))
            then ''COMPLIANT'' else ''NON_COMPLIANT''))"
proof (cases rule: handler_paths [where ev = ev and w = w])
  case (no_item e)
  then show ?thesis
    by (simp add: handler_no_item try_no_item initial_locals_def)
next
  case (fetch_fails item e)
  then show ?thesis
    by (simp add: handler_fetch_fails try_fetch_fails initial_locals_def
          writes_append reports_append fetch_writes fetch_reports report_of_def)
next
  case (no_bucket item zd)
  then show ?thesis
    by (simp add: handler_no_bucket try_no_bucket initial_locals_def
          writes_append reports_append fetch_writes fetch_reports report_of_def)
next
  case (upload_ok item zd bucket)
  then show ?thesis
    by (simp add: handler_upload_ok try_upload initial_locals_def upload_request_of
          writes_append reports_append fetch_writes fetch_reports report_of_def)
next
  case (upload_fails item zd bucket e)
  then show ?thesis
    by (simp add: handler_upload_fails try_upload initial_locals_def upload_request_of
          writes_append reports_append fetch_writes fetch_reports report_of_def)
qed

theorem verdict_compliant_iff_write_succeeded_witness:
  "map ComplianceType (concat (map Evaluations (reports (calls (handler example_world change_event)))))
     = [''COMPLIANT'']
   \<and> (\<exists>q \<in> set (writes (calls (handler example_world change_event))).
         snd (upload_to_s3 example_world (Body q) (Bucket q) (Key q)))
   \<and> map ComplianceType
         (concat (map Evaluations (reports (calls (handler failing_s3_world change_event)))))
     = [''NON_COMPLIANT'']
   \<and> \<not> (\<exists>q \<in> set (writes (calls (handler failing_s3_world change_event))).
         snd (upload_to_s3 failing_s3_world (Body q) (Bucket q) (Key q)))"
proof -
  have ok: "reports (calls (handler example_world change_event))
      = [report_of change_event example_item ''COMPLIANT''
           ''Successfully backed up hosted zone /hostedzone/Z123ABC'']"
    by (simp add: fixture_defs model_defs report_of_def)
  have ko: "reports (calls (handler failing_s3_world change_event))
      = [report_of change_event example_item ''NON_COMPLIANT''
           ''Failed to upload backup for hosted zone /hostedzone/Z123ABC'']"
    by (simp add: fixture_defs model_defs report_of_def)
  from verdict_compliant_iff_write_succeeded [of example_world change_event]
  have "\<forall>r \<in> set (reports (calls (handler example_world change_event))).
          \<forall>e \<in> set (Evaluations r).
            ComplianceType e =
              (if \<exists>q \<in> set (writes (calls (handler example_world change_event))).
                    snd (upload_to_s3 example_world (Body q) (Bucket q) (Key q))
               then ''COMPLIANT'' else ''NON_COMPLIANT'')"
    by (elim conjE)
  then have a: "\<exists>q \<in> set (writes (calls (handler example_world change_event))).
      snd (upload_to_s3 example_world (Body q) (Bucket q) (Key q))"
    unfolding ok by (simp add: report_of_def split: if_splits)
  from verdict_compliant_iff_write_succeeded [of failing_s3_world change_event]
  have "\<forall>r \<in> set (reports (calls (handler failing_s3_world change_event))).
          \<forall>e \<in> set (Evaluations r).
            ComplianceType e =
              (if \<exists>q \<in> set (writes (calls (handler failing_s3_world change_event))).
                    snd (upload_to_s3 failing_s3_world (Body q) (Bucket q) (Key q))
               then ''COMPLIANT'' else ''NON_COMPLIANT'')"
    by (elim conjE)
  then have b: "\<not> (\<exists>q \<in> set (writes (calls (handler failing_s3_world change_event))).
      snd (upload_to_s3 failing_s3_world (Body q) (Bucket q) (Key q)))"
    unfolding ko by (simp add: report_of_def split: if_splits)
  have c: "map ComplianceType
      (concat (map Evaluations (reports (calls (handler example_world change_event)))))
        = [''COMPLIANT'']"
    unfolding ok by (simp add: report_of_def)
  have d: "map ComplianceType
      (concat (map Evaluations (reports (calls (handler failing_s3_world change_event)))))
        = [''NON_COMPLIANT'']"
    unfolding ko by (simp add: report_of_def)
  from a b c d show ?thesis by (intro conjI)
qed


subsection \<open>C4: a storage write that raises\<close>

text \<open>
  Claim C4, as amended. When the \<open>put_object\<close> call of a run raises, \<open>upload_to_s3\<close>
  returns false for it (its result is a truth value: nothing is raised past it), and the
  handler sends exactly one report, with verdict \<^verbatim>\<open>NON_COMPLIANT\<close> and the annotation
  \<^verbatim>\<open>Failed to upload backup for hosted zone\<close> followed by the resource id: a fixed
  text, the same whatever the storage exception says. The storage exception never leaves
  the handler. What leaves the handler is exactly what the report call itself raises:
  nothing when the Config client accepts the report, its exception when it does not,
  the report call standing after the \<^verbatim>\<open>try\<close> block.
\<close>

theorem storage_failure_reported_non_compliant:
  assumes "r \<in> set (writes (calls (handler w ev)))" and "put_object w r = Some e"
  shows "snd (upload_to_s3 w (Body r) (Bucket r) (Key r)) = False
       \<and> (\<exists>item. configuration_item (invoking_event ev) = Inr item
            \<and> reports (calls (handler w ev)) =
                 [report_of ev item ''NON_COMPLIANT''
                    (''Failed to upload backup for hosted zone '' @ ci_resource_id item)]
            \<and> escaped (handler w ev) =
                 config_put_evaluations w (report_of ev item ''NON_COMPLIANT''
                    (''Failed to upload backup for hosted zone '' @ ci_resource_id item)))"
proof -
  from handler_writes [OF assms(1)] obtain item zd bucket where
    item: "configuration_item (invoking_event ev) = Inr item"
    and zd: "snd (fetch_hosted_zone_details w (ci_resource_id item)) = Inr zd"
    and bucket: "BACKUP_BUCKET_NAME w = Some bucket"
    and r: "r = request_of w ev item zd bucket"
    by blast
  from assms(2) r have fails: "put_object w (request_of w ev item zd bucket) = Some e"
    by simp
  have "snd (upload_to_s3 w (Body r) (Bucket r) (Key r)) = False"
    using fails unfolding r by (simp add: upload_request_of)
  moreover have "reports (calls (handler w ev)) =
      [report_of ev item ''NON_COMPLIANT''
         (''Failed to upload backup for hosted zone '' @ ci_resource_id item)]"
    by (simp add: handler_upload_fails [OF item zd bucket fails] reports_append fetch_reports)
  moreover have "escaped (handler w ev) =
      config_put_evaluations w (report_of ev item ''NON_COMPLIANT''
         (''Failed to upload backup for hosted zone '' @ ci_resource_id item))"
    by (simp add: handler_upload_fails [OF item zd bucket fails])
  ultimately show ?thesis using item by blast
qed

theorem storage_failure_reported_non_compliant_witness:
  "hd (writes (calls (handler failing_s3_world change_event)))
     \<in> set (writes (calls (handler failing_s3_world change_event)))
   \<and> put_object failing_s3_world (hd (writes (calls (handler failing_s3_world change_event))))
       = Some (Exn ''AccessDenied'')
   \<and> reports (calls (handler failing_s3_world change_event))
       = [report_of change_event example_item ''NON_COMPLIANT''
            ''Failed to upload backup for hosted zone /hostedzone/Z123ABC'']
   \<and> escaped (handler failing_s3_world change_event) = None"
proof -
  have a: "hd (writes (calls (handler failing_s3_world change_event)))
     \<in> set (writes (calls (handler failing_s3_world change_event)))"
    by (simp add: fixture_defs model_defs)
  have b: "put_object failing_s3_world (hd (writes (calls (handler failing_s3_world change_event))))
       = Some (Exn ''AccessDenied'')"
    by (simp add: failing_s3_world_def example_world_def)
  have c: "configuration_item (invoking_event change_event) = Inr example_item"
    by (simp add: change_event_def)
  have d: "config_put_evaluations failing_s3_world q = None" for q
    by (simp add: failing_s3_world_def example_world_def)
  from storage_failure_reported_non_compliant [OF a b] a b c d show ?thesis
    by (auto simp: example_item_def)
qed

text \<open>
  The claim as stated fails when the report call raises after the storage failure was
  caught: the storage write raises, the report is still attempted once with
  \<^verbatim>\<open>NON_COMPLIANT\<close>, and the exception of the Config client leaves the handler. The
  annotation does not carry the text of the storage exception either.
\<close>

theorem report_call_raises_counterexample:
  "hd (writes (calls (handler throttled_config_world change_event)))
     \<in> set (writes (calls (handler throttled_config_world change_event)))
   \<and> put_object throttled_config_world
         (hd (writes (calls (handler throttled_config_world change_event))))
       = Some (Exn ''AccessDenied'')
   \<and> reports (calls (handler throttled_config_world change_event))
       = [report_of change_event example_item ''NON_COMPLIANT''
            ''Failed to upload backup for hosted zone /hostedzone/Z123ABC'']
   \<and> escaped (handler throttled_config_world change_event) = Some (Exn ''Throttling'')
   \<and> escaped (handler throttled_config_world change_event) \<noteq> None"
  by (simp add: fixture_defs model_defs report_of_def)

subsection \<open>C5: the normalized name\<close>

text \<open>
  Claim C5, as amended. \<open>normalized_name\<close> removes every trailing \<open>.\<close> of the zone name:
  the name is the normalized name followed by dots only, and the normalized name does not
  end in a dot. So it removes exactly one when the name ends in a single dot, it changes
  nothing when the name does not end in a dot, and normalizing twice equals normalizing
  once.
\<close>

theorem normalized_name_strips_trailing_dots:
  "normalized_name (z\<lparr>hzd_name := normalized_name z\<rparr>) = normalized_name z
   \<and> (\<exists>k. hzd_name z = normalized_name z @ replicate k (CHR ''.''))
   \<and> (normalized_name z = [] \<or> last (normalized_name z) \<noteq> CHR ''.'')
   \<and> ((hzd_name z = [] \<or> last (hzd_name z) \<noteq> CHR ''.'') \<longrightarrow> normalized_name z = hzd_name z)
   \<and> (\<forall>m. hzd_name z = m @ ''.'' \<and> (m = [] \<or> last m \<noteq> CHR ''.'') \<longrightarrow> normalized_name z = m)"
proof -
  have one: "normalized_name z = m"
    if "hzd_name z = m @ ''.''" "m = [] \<or> last m \<noteq> CHR ''.''" for m
  proof -
    have "rstrip (CHR ''.'') (m @ replicate 1 (CHR ''.'')) = rstrip (CHR ''.'') m"
      by (rule rstrip_replicate)
    then show ?thesis using that by (simp add: normalized_name_def rstrip_noop)
  qed
  show ?thesis
    using rstrip_decomp [of "hzd_name z" "CHR ''.''"] rstrip_end [of "CHR ''.''" "hzd_name z"] one
    by (simp add: normalized_name_def rstrip_idem rstrip_noop)
qed

theorem normalized_name_strips_trailing_dots_witness:
  "hzd_name example_zone = ''example.com'' @ ''.''
   \<and> normalized_name example_zone = ''example.com''
   \<and> normalized_name (example_zone\<lparr>hzd_name := ''example.com''\<rparr>) = ''example.com''"
  using normalized_name_strips_trailing_dots [of example_zone]
    normalized_name_strips_trailing_dots [of "example_zone\<lparr>hzd_name := ''example.com''\<rparr>"]
  by (simp add: example_zone_def)

text \<open>
  The claim as stated fails for a name that ends in two dots: both go, not exactly one.
\<close>

theorem normalized_name_counterexample:
  "hzd_name double_dot_zone = ''example.com..''
   \<and> normalized_name double_dot_zone = ''example.com''
   \<and> normalized_name double_dot_zone \<noteq> butlast (hzd_name double_dot_zone)"
  by (simp add: double_dot_zone_def example_zone_def normalized_name_def rstrip_def)

subsection \<open>C6: the trigger type\<close>

text \<open>
  Claim C6. The trigger type is \<^verbatim>\<open>change\<close> if and only if the message type of the event
  is \<^verbatim>\<open>ConfigurationItemChangeNotification\<close>, and \<^verbatim>\<open>creation\<close> for every other message
  type; it is the trigger type in the metadata of every backup the handler writes.
\<close>

theorem trigger_type_change_iff_message_type:
  "(trigger_type mt = ''change'' \<longleftrightarrow> mt = ''ConfigurationItemChangeNotification'')
   \<and> (mt \<noteq> ''ConfigurationItemChangeNotification'' \<longrightarrow> trigger_type mt = ''creation'')
   \<and> (\<forall>r \<in> set (writes (calls (handler w ev))).
         Option.bind (json_get (Body r) ''metadata'') (\<lambda>m. json_get m ''triggerType'')
           = Some (JStr (if message_type (invoking_event ev) = ''ConfigurationItemChangeNotification''
                         then ''change'' else ''creation'')))"
proof -
  have "Option.bind (json_get (Body r) ''metadata'') (\<lambda>m. json_get m ''triggerType'')
           = Some (JStr (if message_type (invoking_event ev) = ''ConfigurationItemChangeNotification''
                         then ''change'' else ''creation''))"
    if "r \<in> set (writes (calls (handler w ev)))" for r
    using handler_writes [OF that] metadata_trigger_type [of w ev]
    by (auto simp: trigger_type_def)
  then show ?thesis by (simp add: trigger_type_def)
qed

theorem trigger_type_change_iff_message_type_witness:
  "trigger_type ''ConfigurationItemChangeNotification'' = ''change''
   \<and> trigger_type ''ScheduledNotification'' = ''creation''
   \<and> hd (writes (calls (handler example_world change_event)))
       \<in> set (writes (calls (handler example_world change_event)))
   \<and> map (\<lambda>r. Option.bind (json_get (Body r) ''metadata'') (\<lambda>m. json_get m ''triggerType''))
         (writes (calls (handler example_world change_event)))
       = [Some (JStr ''change'')]"
  using trigger_type_change_iff_message_type
          [of "''ConfigurationItemChangeNotification''" example_world change_event]
    trigger_type_change_iff_message_type [of "''ScheduledNotification''" example_world change_event]
  by (simp add: fixture_defs model_defs)

subsection \<open>C7: the storage key\<close>

text \<open>
  Claim C7. The key is the text \<^verbatim>\<open>route53-backup/\<close>, the account id, \<open>/\<close>, the normalized
  zone name, \<open>/\<close>, the trigger type, \<open>-\<close>, the timestamp and \<^verbatim>\<open>.json\<close>; every object the
  handler writes has that key. It is a function of the four values, and two keys that
  differ in one of the four values only are different keys.
\<close>

theorem s3_key_format_and_sensitivity:
  "s3_key a n t s = ''route53-backup/'' @ a @ ''/'' @ n @ ''/'' @ t @ ''-'' @ s @ ''.json''
   \<and> (s3_key a n t s = s3_key a' n t s \<longleftrightarrow> a = a')
   \<and> (s3_key a n t s = s3_key a n' t s \<longleftrightarrow> n = n')
   \<and> (s3_key a n t s = s3_key a n t' s \<longleftrightarrow> t = t')
   \<and> (s3_key a n t s = s3_key a n t s' \<longleftrightarrow> s = s')
   \<and> (\<forall>r \<in> set (writes (calls (handler w ev))).
         \<exists>item zd. configuration_item (invoking_event ev) = Inr item
           \<and> snd (fetch_hosted_zone_details w (ci_resource_id item)) = Inr zd
           \<and> Key r = ''route53-backup/'' @ ci_accountid item @ ''/'' @ normalized_name zd @ ''/''
                 @ trigger_type (message_type (invoking_event ev)) @ ''-'' @ utcnow w @ ''.json'')"
proof -
  have "\<exists>item zd. configuration_item (invoking_event ev) = Inr item
           \<and> snd (fetch_hosted_zone_details w (ci_resource_id item)) = Inr zd
           \<and> Key r = ''route53-backup/'' @ ci_accountid item @ ''/'' @ normalized_name zd @ ''/''
                 @ trigger_type (message_type (invoking_event ev)) @ ''-'' @ utcnow w @ ''.json''"
    if "r \<in> set (writes (calls (handler w ev)))" for r
  proof -
    from handler_writes [OF that] obtain item zd bucket where
      "configuration_item (invoking_event ev) = Inr item"
      "snd (fetch_hosted_zone_details w (ci_resource_id item)) = Inr zd"
      "r = request_of w ev item zd bucket"
      by blast
    then show ?thesis by (simp add: request_of_def s3_key_def)
  qed
  then show ?thesis by (simp add: s3_key_def)
qed

theorem s3_key_format_and_sensitivity_witness:
  "s3_key ''123456789012'' ''example.com'' ''change'' ''20240501T100000Z''
     = ''route53-backup/123456789012/example.com/change-20240501T100000Z.json''
   \<and> s3_key ''123456789012'' ''example.com'' ''change'' ''20240501T100000Z''
       \<noteq> s3_key ''123456789012'' ''example.com'' ''creation'' ''20240501T100000Z''
   \<and> hd (writes (calls (handler example_world change_event)))
       \<in> set (writes (calls (handler example_world change_event)))
   \<and> map Key (writes (calls (handler example_world change_event)))
       = [''route53-backup/123456789012/example.com/change-20240501T100000Z.json'']"
  using s3_key_format_and_sensitivity
          [of "''123456789012''" "''example.com''" "''change''" "''20240501T100000Z''"
              "''123456789012''" "''example.com''" "''creation''" "''20240501T100000Z''"
              example_world change_event]
  by (simp add: fixture_defs model_defs)

subsection \<open>C8: empty optional fields\<close>

text \<open>
  Claim C8. The record sets of the backup document are the dicts that
  \<^verbatim>\<open>create_backup_data\<close> builds itself, one per record set and in order. Each has its
  name and its type. It has a TTL only if the record set has one that is not zero,
  resource records only if the list is not empty, an alias target only if there is one
  and it is not empty; so none of the three is ever written as an empty value. This holds
  for every record set, whatever built it.
\<close>

theorem builder_omits_empty_optional_fields:
  "json_get (create_backup_data zd md) ''resourceRecordSets''
     = Some (JList (map (\<lambda>rrs. JDict (rrs_dict rrs)) (resource_record_sets zd)))
   \<and> map_of (rrs_dict rrs) ''Name'' = Some (JStr (rrs_name rrs))
   \<and> map_of (rrs_dict rrs) ''Type'' = Some (JStr (rrs_type rrs))
   \<and> (''TTL'' \<in> fst ` set (rrs_dict rrs) \<longleftrightarrow> ttl rrs \<noteq> None \<and> ttl rrs \<noteq> Some 0)
   \<and> (''ResourceRecords'' \<in> fst ` set (rrs_dict rrs) \<longleftrightarrow> resource_records rrs \<noteq> [])
   \<and> (''AliasTarget'' \<in> fst ` set (rrs_dict rrs)
        \<longleftrightarrow> alias_target rrs \<noteq> None \<and> alias_target rrs \<noteq> Some [])
   \<and> (\<forall>(k, v) \<in> set (rrs_dict rrs). k \<noteq> ''Name'' \<and> k \<noteq> ''Type'' \<longrightarrow> \<not> placeholder v)"
proof -
  have doc: "json_get (create_backup_data zd md) ''resourceRecordSets''
     = Some (JList (map (\<lambda>rrs. JDict (rrs_dict rrs)) (resource_record_sets zd)))"
    by (simp add: create_backup_data_def record_sets_dicts_map)
  have name: "map_of (rrs_dict rrs) ''Name'' = Some (JStr (rrs_name rrs))"
    and type: "map_of (rrs_dict rrs) ''Type'' = Some (JStr (rrs_type rrs))"
    by (simp_all add: rrs_dict_def Let_def split: option.splits)
  have keys: "(''TTL'' \<in> fst ` set (rrs_dict rrs) \<longleftrightarrow> ttl rrs \<noteq> None \<and> ttl rrs \<noteq> Some 0)"
    "(''ResourceRecords'' \<in> fst ` set (rrs_dict rrs) \<longleftrightarrow> resource_records rrs \<noteq> [])"
    "(''AliasTarget'' \<in> fst ` set (rrs_dict rrs)
        \<longleftrightarrow> alias_target rrs \<noteq> None \<and> alias_target rrs \<noteq> Some [])"
    unfolding rrs_dict_keys by simp_all
  have vals: "\<forall>(k, v) \<in> set (rrs_dict rrs). k \<noteq> ''Name'' \<and> k \<noteq> ''Type'' \<longrightarrow> \<not> placeholder v"
    by (auto simp: rrs_dict_def Let_def placeholder_def split: option.splits)
  from doc name type keys vals show ?thesis by blast
qed

theorem builder_omits_empty_optional_fields_witness:
  "ttl (ResourceRecordSet_from_dict raw_empty) = None
   \<and> resource_records (ResourceRecordSet_from_dict raw_empty) = []
   \<and> alias_target (ResourceRecordSet_from_dict raw_empty) = Some []
   \<and> fst ` set (rrs_dict (ResourceRecordSet_from_dict raw_empty)) = {''Name'', ''Type''}
   \<and> json_get (create_backup_data
                 (example_zone\<lparr>resource_record_sets := [ResourceRecordSet_from_dict raw_empty]\<rparr>)
                 (metadata_of example_world change_event example_item example_zone))
        ''resourceRecordSets''
       = Some (JList [JDict [(''Name'', JStr ''example.com.''), (''Type'', JStr ''NS'')]])"
  using builder_omits_empty_optional_fields
          [of "example_zone\<lparr>resource_record_sets := [ResourceRecordSet_from_dict raw_empty]\<rparr>"
              "metadata_of example_world change_event example_item example_zone"
              "ResourceRecordSet_from_dict raw_empty"]
  by (auto simp: raw_empty_def example_zone_def ResourceRecordSet_from_dict_def get_default_def
        rrs_dict_def)

subsection \<open>C9: pagination\<close>

text \<open>
  Claim C9. When the zone is found and every page is fetched, the record sets of the
  zone details are the record sets of the pages, converted one by one, in page order and
  then in the order within the page: nothing is dropped, merged or moved, and there are
  as many as the page sizes add up to. Pages of sizes 3, 2, 0 and 5 give ten.
\<close>

theorem pagination_preserves_count_and_order:
  assumes "get_hosted_zone w z = Inr resp"
      and "list_resource_record_sets w z = map Inr pages"
  shows "\<exists>zd. snd (fetch_hosted_zone_details w z) = Inr zd
          \<and> resource_record_sets zd = map ResourceRecordSet_from_dict (concat pages)
          \<and> length (resource_record_sets zd) = sum_list (map length pages)"
  using assms
  by (simp add: fetch_hosted_zone_details_def collect_pages_all length_concat)

theorem pagination_preserves_count_and_order_witness:
  "get_hosted_zone example_world ''Z123ABC'' = Inr example_response
   \<and> list_resource_record_sets example_world ''Z123ABC'' = map Inr example_pages
   \<and> map length example_pages = [3, 2, 0, 5]
   \<and> (\<exists>zd. snd (fetch_hosted_zone_details example_world ''Z123ABC'') = Inr zd
         \<and> length (resource_record_sets zd) = 10
         \<and> map rrs_name (resource_record_sets zd)
             = [''a'', ''b'', ''c'', ''d'', ''e'', ''f'', ''g'', ''h'', ''i'', ''j''])"
proof -
  have a: "get_hosted_zone example_world ''Z123ABC'' = Inr example_response"
    by (simp add: example_world_def)
  have b: "list_resource_record_sets example_world ''Z123ABC'' = map Inr example_pages"
    by (simp add: example_world_def)
  have c: "map length example_pages = [3, 2, 0, 5]"
    by (simp add: example_pages_def)
  have d: "map rrs_name (map ResourceRecordSet_from_dict (concat example_pages))
             = [''a'', ''b'', ''c'', ''d'', ''e'', ''f'', ''g'', ''h'', ''i'', ''j'']"
    by (simp add: example_pages_def raw_a_def ResourceRecordSet_from_dict_def get_default_def)
  from pagination_preserves_count_and_order [OF a b] obtain zd where
    "snd (fetch_hosted_zone_details example_world ''Z123ABC'') = Inr zd"
    "resource_record_sets zd = map ResourceRecordSet_from_dict (concat example_pages)"
    "length (resource_record_sets zd) = sum_list (map length example_pages)"
    by blast
  with a b c d show ?thesis by simp
qed

subsection \<open>C10: a TTL of zero\<close>

text \<open>
  Claim C10. A record set whose TTL is zero is written without a TTL: its dict is the
  dict of the same record set with no TTL at all.
\<close>

theorem zero_ttl_is_omitted:
  assumes "ttl rrs = Some 0"
  shows "''TTL'' \<notin> fst ` set (rrs_dict rrs) \<and> rrs_dict rrs = rrs_dict (rrs\<lparr>ttl := None\<rparr>)"
  using assms by (auto simp: rrs_dict_def Let_def split: option.splits)

theorem zero_ttl_is_omitted_witness:
  "ttl zero_ttl_record = Some 0
   \<and> ''TTL'' \<notin> fst ` set (rrs_dict zero_ttl_record)
   \<and> rrs_dict zero_ttl_record = rrs_dict (zero_ttl_record\<lparr>ttl := None\<rparr>)"
proof -
  have a: "ttl zero_ttl_record = Some 0"
    by (simp add: zero_ttl_record_def)
  from zero_ttl_is_omitted [OF a] a show ?thesis by blast
qed

end
